theory Spec2Isabelle
  imports Complex_Main
begin

section \<open>Data model of \<open>src/main.ts\<close>\<close>

text \<open>
  The game keeps every coordinate in a JavaScript \<open>number\<close>. The canvas is half the
  window, the weapon is half the player and offsets use \<open>size / 2\<close>, so halves occur:
  coordinates are modelled as exact rationals. The ammunition counter only ever holds
  small whole numbers and is an \<open>int\<close>. Rendering calls on the 2D context change no
  game state and are left out; what \<open>draw\<close> writes into hit boxes is kept.
\<close>

type_synonym number = rat

datatype PlayerDirection = Up | Left | Down | Right

text \<open>The part of an \<open>HTMLCanvasElement\<close> the game reads.\<close>

record Canvas =
  width :: number
  height :: number

text \<open>\<open>HitBoxOptions\<close> without the drawing context; a \<open>HitBox\<close> holds nothing else.\<close>

record HitBox =
  hx :: number
  hy :: number
  hw :: number
  hh :: number

text \<open>
  Private fields that are initialised once and never assigned again (\<open>_size\<close> and
  \<open>_speed\<close> of a shot, \<open>_size\<close> of an enemy, \<open>_w\<close> and \<open>_h\<close> of the player) are
  constants below, not record fields. A \<open>PlayerWeaponShot\<close> is its mutable options object
  (\<open>x\<close>, \<open>y\<close>, \<open>direction\<close>, \<open>defaultWeaponWidth\<close>) and its hit box.
\<close>

record PlayerWeaponShot =
  s_x :: number
  s_y :: number
  s_direction :: PlayerDirection
  s_defaultWeaponWidth :: number
  s_hitbox :: HitBox

record PlayerWeapon =
  w_x :: number
  w_y :: number
  w_w :: number
  w_defaultWidth :: number
  w_h :: number
  w_defaultHeight :: number
  w_shots :: "PlayerWeaponShot list"
  w_ammo :: int
  w_hitbox :: HitBox

record Player =
  p_x :: number
  p_y :: number
  p_weapon :: PlayerWeapon
  p_direction :: PlayerDirection
  p_hitbox :: HitBox

record Enemy =
  e_direction :: PlayerDirection
  e_x :: number
  e_y :: number
  e_hitbox :: HitBox

record SpaceGame =
  canvas :: Canvas
  player :: Player
  enemies :: "Enemy list"
  gameOver :: bool

section \<open>HitBox\<close>

definition HitBox_new :: "number \<Rightarrow> number \<Rightarrow> number \<Rightarrow> number \<Rightarrow> HitBox" where
  "HitBox_new x y w h = \<lparr>hx = x, hy = y, hw = w, hh = h\<rparr>"

text \<open>\<open>HitBox.collision\<close>: \<open>this\<close> is the first argument.\<close>

definition collision :: "HitBox \<Rightarrow> HitBox \<Rightarrow> bool" where
  "collision this hitbox \<longleftrightarrow>
     hx this < hx hitbox + hw hitbox \<and>
     hx this + hw this > hx hitbox \<and>
     hy this < hy hitbox + hh hitbox \<and>
     hy this + hh this > hy hitbox"


section \<open>PlayerWeaponShot\<close>

definition PlayerWeaponShot_size :: number where
  "PlayerWeaponShot_size = 5"

definition PlayerWeaponShot_speed :: number where
  "PlayerWeaponShot_speed = 3"

definition PlayerWeaponShot_new ::
  "number \<Rightarrow> number \<Rightarrow> PlayerDirection \<Rightarrow> number \<Rightarrow> PlayerWeaponShot" where
  "PlayerWeaponShot_new x y direction defaultWeaponWidth =
     \<lparr>s_x = x, s_y = y, s_direction = direction,
      s_defaultWeaponWidth = defaultWeaponWidth,
      s_hitbox = HitBox_new x y PlayerWeaponShot_size PlayerWeaponShot_size\<rparr>"

text \<open>\<open>PlayerWeaponShot.draw\<close>: the four \<open>if\<close> statements in source order; only the
  assignments to the hit box are state.\<close>

definition PlayerWeaponShot_draw :: "PlayerWeaponShot \<Rightarrow> PlayerWeaponShot" where
  "PlayerWeaponShot_draw this0 =
     (let size = PlayerWeaponShot_size;
          this1 = (if s_direction this0 = Up
            then this0\<lparr>s_hitbox := (s_hitbox this0)
                   \<lparr>hx := s_x this0 + size + size / 2 - size,
                    hy := s_y this0 - size\<rparr>\<rparr>
            else this0);
          this2 = (if s_direction this1 = Left
            then this1\<lparr>s_hitbox := (s_hitbox this1)
                   \<lparr>hx := s_x this1 - size,
                    hy := s_y this1 + size + size / 2 - size\<rparr>\<rparr>
            else this1);
          this3 = (if s_direction this2 = Down
            then this2\<lparr>s_hitbox := (s_hitbox this2)
                   \<lparr>hx := s_x this2 + size + size / 2 - size,
                    hy := s_y this2 + s_defaultWeaponWidth this2 - size\<rparr>\<rparr>
            else this2);
          this4 = (if s_direction this3 = Right
            then this3\<lparr>s_hitbox := (s_hitbox this3)
                   \<lparr>hx := s_x this3 + s_defaultWeaponWidth this3 - size,
                    hy := s_y this3 + size + size / 2 - size\<rparr>\<rparr>
            else this3)
      in this4)"

definition PlayerWeaponShot_update :: "PlayerWeaponShot \<Rightarrow> PlayerWeaponShot" where
  "PlayerWeaponShot_update this0 =
     (let this1 = (if s_direction this0 = Up
            then this0\<lparr>s_y := s_y this0 - PlayerWeaponShot_speed\<rparr> else this0);
          this2 = (if s_direction this1 = Left
            then this1\<lparr>s_x := s_x this1 - PlayerWeaponShot_speed\<rparr> else this1);
          this3 = (if s_direction this2 = Down
            then this2\<lparr>s_y := s_y this2 + PlayerWeaponShot_speed\<rparr> else this2);
          this4 = (if s_direction this3 = Right
            then this3\<lparr>s_x := s_x this3 + PlayerWeaponShot_speed\<rparr> else this3)
      in this4)"

section \<open>PlayerWeapon\<close>

definition PlayerWeapon_new :: "number \<Rightarrow> PlayerWeapon" where
  "PlayerWeapon_new playerWidth =
     \<lparr>w_x = 0, w_y = 0, w_w = playerWidth / 2, w_defaultWidth = playerWidth / 2,
      w_h = 15, w_defaultHeight = 15, w_shots = [], w_ammo = 3,
      w_hitbox = HitBox_new 0 0 (playerWidth / 2) 15\<rparr>"

definition adjustWeapon ::
  "number \<Rightarrow> number \<Rightarrow> number \<Rightarrow> number \<Rightarrow> PlayerWeapon \<Rightarrow> PlayerWeapon" where
  "adjustWeapon x y w h this =
     this\<lparr>w_x := x, w_y := y, w_w := w, w_h := h,
          w_hitbox := (w_hitbox this)\<lparr>hx := x, hy := y, hw := w, hh := h\<rparr>\<rparr>"

definition fire :: "PlayerDirection \<Rightarrow> PlayerWeapon \<Rightarrow> PlayerWeapon" where
  "fire direction this =
     (if w_ammo this \<le> 0 then this
      else this\<lparr>w_shots :=
                  PlayerWeaponShot_new (w_x this) (w_y this) direction (w_defaultWidth this)
                    # w_shots this,
                w_ammo := w_ammo this - 1\<rparr>)"

definition reload :: "PlayerWeapon \<Rightarrow> PlayerWeapon" where
  "reload this = (if w_ammo this > 0 then this else this\<lparr>w_ammo := 3\<rparr>)"

text \<open>A call of \<open>fire\<close> or \<open>reload\<close> from outside, and its effect on the weapon.\<close>

datatype WeaponCall = FireCall PlayerDirection | ReloadCall

fun weaponCall :: "PlayerWeapon \<Rightarrow> WeaponCall \<Rightarrow> PlayerWeapon" where
  "weaponCall w (FireCall d) = fire d w"
| "weaponCall w ReloadCall = reload w"

text \<open>\<open>drawShots\<close> and \<open>updateShots\<close> visit every shot once, in order.\<close>

definition PlayerWeapon_draw :: "PlayerWeapon \<Rightarrow> PlayerWeapon" where
  "PlayerWeapon_draw this = this\<lparr>w_shots := map PlayerWeaponShot_draw (w_shots this)\<rparr>"

definition PlayerWeapon_update :: "PlayerWeapon \<Rightarrow> PlayerWeapon" where
  "PlayerWeapon_update this = this\<lparr>w_shots := map PlayerWeaponShot_update (w_shots this)\<rparr>"

section \<open>Player\<close>

definition Player_w :: number where
  "Player_w = 60"

definition Player_h :: number where
  "Player_h = 60"

definition handleDirectionChange :: "Player \<Rightarrow> Player" where
  "handleDirectionChange this0 =
     (let this1 = (if p_direction this0 = Up
            then this0\<lparr>p_weapon := adjustWeapon
                   (p_x this0 + w_defaultWidth (p_weapon this0)
                      - w_defaultHeight (p_weapon this0) / 2)
                   (p_y this0 - Player_h / 2)
                   (w_defaultHeight (p_weapon this0))
                   (Player_h / 2)
                   (p_weapon this0)\<rparr>
            else this0);
          this2 = (if p_direction this1 = Left
            then this1\<lparr>p_weapon := adjustWeapon
                   (p_x this1 - Player_w / 2)
                   (p_y this1 + w_defaultWidth (p_weapon this1)
                      - w_defaultHeight (p_weapon this1) / 2)
                   (Player_w / 2)
                   (w_defaultHeight (p_weapon this1))
                   (p_weapon this1)\<rparr>
            else this1);
          this3 = (if p_direction this2 = Down
            then this2\<lparr>p_weapon := adjustWeapon
                   (p_x this2 + w_defaultWidth (p_weapon this2)
                      - w_defaultHeight (p_weapon this2) / 2)
                   (p_y this2 + Player_h)
                   (w_defaultHeight (p_weapon this2))
                   (Player_h / 2)
                   (p_weapon this2)\<rparr>
            else this2);
          this4 = (if p_direction this3 = Right
            then this3\<lparr>p_weapon := adjustWeapon
                   (p_x this3 + Player_w)
                   (p_y this3 + w_defaultWidth (p_weapon this3)
                      - w_defaultHeight (p_weapon this3) / 2)
                   (Player_w / 2)
                   (w_defaultHeight (p_weapon this3))
                   (p_weapon this3)\<rparr>
            else this3)
      in this4)"

definition Player_new :: "Canvas \<Rightarrow> Player" where
  "Player_new cv =
     handleDirectionChange
       \<lparr>p_x = (width cv - Player_w) / 2,
        p_y = (height cv - Player_h) / 2,
        p_weapon = PlayerWeapon_new Player_w,
        p_direction = Up,
        p_hitbox = HitBox_new ((width cv - Player_w) / 2) ((height cv - Player_h) / 2)
                     Player_w Player_h\<rparr>"

definition changeDirection :: "PlayerDirection \<Rightarrow> Player \<Rightarrow> Player" where
  "changeDirection dir this = handleDirectionChange (this\<lparr>p_direction := dir\<rparr>)"

text \<open>The \<open>keyup\<close> listener of \<open>handleKeyUpInput\<close>; \<open>OtherKey\<close> is any key without a case.\<close>

datatype Key = ArrowUp | ArrowLeft | ArrowDown | ArrowRight | Space | KeyR | OtherKey

fun handleKeyUpInput :: "Key \<Rightarrow> Player \<Rightarrow> Player" where
  "handleKeyUpInput ArrowUp this = changeDirection Up this"
| "handleKeyUpInput ArrowLeft this = changeDirection Left this"
| "handleKeyUpInput ArrowDown this = changeDirection Down this"
| "handleKeyUpInput ArrowRight this = changeDirection Right this"
| "handleKeyUpInput Space this = this\<lparr>p_weapon := fire (p_direction this) (p_weapon this)\<rparr>"
| "handleKeyUpInput KeyR this = this\<lparr>p_weapon := reload (p_weapon this)\<rparr>"
| "handleKeyUpInput OtherKey this = this"

definition Player_draw :: "Player \<Rightarrow> Player" where
  "Player_draw this = this\<lparr>p_weapon := PlayerWeapon_draw (p_weapon this)\<rparr>"

definition Player_update :: "Player \<Rightarrow> Player" where
  "Player_update this = this\<lparr>p_weapon := PlayerWeapon_update (p_weapon this)\<rparr>"

section \<open>Enemy\<close>

definition Enemy_size :: number where
  "Enemy_size = 25"

text \<open>\<open>randomDirection\<close> indexes a four-element list with \<open>floor (random * 4)\<close>, so it
  yields one of the four directions; the outcome is the argument of the constructor.\<close>

definition Enemy_new :: "PlayerDirection \<Rightarrow> Enemy" where
  "Enemy_new direction =
     \<lparr>e_direction = direction, e_x = 0, e_y = 0,
      e_hitbox = HitBox_new 0 0 Enemy_size Enemy_size\<rparr>"

definition Enemy_draw :: "Canvas \<Rightarrow> Enemy \<Rightarrow> Enemy" where
  "Enemy_draw cv this0 =
     (let size = Enemy_size;
          this1 = (if e_direction this0 = Up
            then this0\<lparr>e_hitbox := (e_hitbox this0)
                   \<lparr>hx := e_x this0 + width cv / 2 - size + size / 2,
                    hy := e_y this0 + height cv - size\<rparr>\<rparr>
            else this0);
          this2 = (if e_direction this1 = Left
            then this1\<lparr>e_hitbox := (e_hitbox this1)
                   \<lparr>hx := e_x this1 + width cv - size + size / 2,
                    hy := e_y this1 + height cv / 2 - size + size / 2\<rparr>\<rparr>
            else this1);
          this3 = (if e_direction this2 = Down
            then this2\<lparr>e_hitbox := (e_hitbox this2)
                   \<lparr>hx := e_x this2 + width cv / 2 - size + size / 2,
                    hy := e_y this2 + 0 - size\<rparr>\<rparr>
            else this2);
          this4 = (if e_direction this3 = Right
            then this3\<lparr>e_hitbox := (e_hitbox this3)
                   \<lparr>hx := e_x this3 + 0 - size + size / 2,
                    hy := e_y this3 + height cv / 2 - size + size / 2\<rparr>\<rparr>
            else this3)
      in this4)"

definition Enemy_update :: "Enemy \<Rightarrow> Enemy" where
  "Enemy_update this0 =
     (let this1 = (if e_direction this0 = Up then this0\<lparr>e_y := e_y this0 - 1\<rparr> else this0);
          this2 = (if e_direction this1 = Left then this1\<lparr>e_x := e_x this1 - 1\<rparr> else this1);
          this3 = (if e_direction this2 = Down then this2\<lparr>e_y := e_y this2 + 1\<rparr> else this2);
          this4 = (if e_direction this3 = Right then this3\<lparr>e_x := e_x this3 + 1\<rparr> else this3)
      in this4)"

section \<open>SpaceGame\<close>

definition SpaceGame_new :: "Canvas \<Rightarrow> SpaceGame" where
  "SpaceGame_new cv = \<lparr>canvas = cv, player = Player_new cv, enemies = [], gameOver = False\<rparr>"

definition drawEnemies :: "SpaceGame \<Rightarrow> SpaceGame" where
  "drawEnemies this = this\<lparr>enemies := map (Enemy_draw (canvas this)) (enemies this)\<rparr>"

definition updateEnemies :: "SpaceGame \<Rightarrow> SpaceGame" where
  "updateEnemies this = this\<lparr>enemies := map Enemy_update (enemies this)\<rparr>"

definition draw :: "SpaceGame \<Rightarrow> SpaceGame" where
  "draw this = drawEnemies (this\<lparr>player := Player_draw (player this)\<rparr>)"

text \<open>\<open>Array.prototype.splice(i, 1)\<close> with \<open>i \<ge> 0\<close>: removes the element at index \<open>i\<close>,
  and nothing when \<open>i\<close> is not below the length.\<close>

definition splice1 :: "nat \<Rightarrow> 'a list \<Rightarrow> 'a list" where
  "splice1 i xs = take i xs @ drop (Suc i) xs"

text \<open>
  \<open>handleShotEnemyCollision\<close>. The inner loop over \<open>j\<close> keeps the shot read before it
  started (the variable \<open>shot\<close>), re-reads the length of the enemy array at every test
  and splices both arrays on a hit; \<open>j\<close> is incremented after a hit as after a miss.
\<close>

function handleShotEnemyCollision_inner ::
  "PlayerWeaponShot \<Rightarrow> nat \<Rightarrow> nat \<Rightarrow> PlayerWeaponShot list \<times> Enemy list
     \<Rightarrow> PlayerWeaponShot list \<times> Enemy list" where
  "handleShotEnemyCollision_inner shot i j (shots, es) =
     (if j < length es then
        (if collision (s_hitbox shot) (e_hitbox (es ! j))
         then handleShotEnemyCollision_inner shot i (Suc j) (splice1 i shots, splice1 j es)
         else handleShotEnemyCollision_inner shot i (Suc j) (shots, es))
      else (shots, es))"
  by pat_completeness auto
termination
  by (relation "measure (\<lambda>(shot, i, j, shots, es). length es - j)")
     (auto simp: splice1_def)

declare handleShotEnemyCollision_inner.simps [simp del]

lemma length_splice1: "length (splice1 i xs) \<le> length xs"
  by (simp add: splice1_def)

lemma inner_shots_length:
  "length (fst (handleShotEnemyCollision_inner shot i j p)) \<le> length (fst p)"
proof (induction shot i j p rule: handleShotEnemyCollision_inner.induct)
  case (1 shot i j shots es)
  show ?case
  proof (cases "j < length es")
    case False
    then show ?thesis by (simp add: handleShotEnemyCollision_inner.simps)
  next
    case lt: True
    show ?thesis
    proof (cases "collision (s_hitbox shot) (e_hitbox (es ! j))")
      case True
      from "1.IH"(1) [OF lt True]
      have "length (fst (handleShotEnemyCollision_inner shot i (Suc j)
              (splice1 i shots, splice1 j es))) \<le> length (splice1 i shots)"
        by simp
      also have "\<dots> \<le> length shots" by (rule length_splice1)
      finally show ?thesis
        using lt True by (subst handleShotEnemyCollision_inner.simps) simp
    next
      case False
      from "1.IH"(2) [OF lt False]
      show ?thesis
        using lt False by (subst handleShotEnemyCollision_inner.simps) simp
    qed
  qed
qed

function handleShotEnemyCollision_outer ::
  "nat \<Rightarrow> PlayerWeaponShot list \<times> Enemy list \<Rightarrow> PlayerWeaponShot list \<times> Enemy list" where
  "handleShotEnemyCollision_outer i (shots, es) =
     (if i < length shots
      then handleShotEnemyCollision_outer (Suc i)
             (handleShotEnemyCollision_inner (shots ! i) i 0 (shots, es))
      else (shots, es))"
  by pat_completeness auto
termination
proof (relation "measure (\<lambda>(i, shots, es). length shots - i)")
  show "wf (measure (\<lambda>(i, shots, es). length shots - i))" by simp
next
  fix i :: nat and shots :: "PlayerWeaponShot list" and es :: "Enemy list"
  assume lt: "i < length shots"
  obtain shots' es' where r:
    "handleShotEnemyCollision_inner (shots ! i) i 0 (shots, es) = (shots', es')"
    by (cases "handleShotEnemyCollision_inner (shots ! i) i 0 (shots, es)")
  from inner_shots_length [of "shots ! i" i 0 "(shots, es)"] r
  have "length shots' \<le> length shots" by simp
  with lt r
  show "((Suc i, handleShotEnemyCollision_inner (shots ! i) i 0 (shots, es)), i, shots, es)
          \<in> measure (\<lambda>(i, shots, es). length shots - i)"
    by simp
qed

declare handleShotEnemyCollision_outer.simps [simp del]

definition handleShotEnemyCollision :: "SpaceGame \<Rightarrow> SpaceGame" where
  "handleShotEnemyCollision this =
     (case handleShotEnemyCollision_outer 0
             (w_shots (p_weapon (player this)), enemies this) of
        (shots, es) \<Rightarrow>
          this\<lparr>player := (player this)
                   \<lparr>p_weapon := (p_weapon (player this))\<lparr>w_shots := shots\<rparr>\<rparr>,
               enemies := es\<rparr>)"

text \<open>\<open>handlePlayerEnemyCollision\<close>: the loop over the enemy array, started at index
  \<open>0\<close>.\<close>

function handlePlayerEnemyCollision_loop :: "nat \<Rightarrow> SpaceGame \<Rightarrow> SpaceGame" where
  "handlePlayerEnemyCollision_loop i this =
     (if i < length (enemies this) then
        handlePlayerEnemyCollision_loop (Suc i)
          (if collision (p_hitbox (player this)) (e_hitbox (enemies this ! i))
           then this\<lparr>gameOver := True\<rparr> else this)
      else this)"
  by pat_completeness auto
termination
  by (relation "measure (\<lambda>(i, this). length (enemies this) - i)") auto

declare handlePlayerEnemyCollision_loop.simps [simp del]

definition handlePlayerEnemyCollision :: "SpaceGame \<Rightarrow> SpaceGame" where
  "handlePlayerEnemyCollision this = handlePlayerEnemyCollision_loop 0 this"

function handlePlayerWeaponEnemyCollision_loop :: "nat \<Rightarrow> SpaceGame \<Rightarrow> SpaceGame" where
  "handlePlayerWeaponEnemyCollision_loop i this =
     (if i < length (enemies this) then
        handlePlayerWeaponEnemyCollision_loop (Suc i)
          (if collision (w_hitbox (p_weapon (player this))) (e_hitbox (enemies this ! i))
           then this\<lparr>gameOver := True\<rparr> else this)
      else this)"
  by pat_completeness auto
termination
  by (relation "measure (\<lambda>(i, this). length (enemies this) - i)") auto

declare handlePlayerWeaponEnemyCollision_loop.simps [simp del]

definition handlePlayerWeaponEnemyCollision :: "SpaceGame \<Rightarrow> SpaceGame" where
  "handlePlayerWeaponEnemyCollision this = handlePlayerWeaponEnemyCollision_loop 0 this"

definition update :: "SpaceGame \<Rightarrow> SpaceGame" where
  "update this =
     handlePlayerWeaponEnemyCollision
       (handlePlayerEnemyCollision
         (handleShotEnemyCollision
           (updateEnemies (this\<lparr>player := Player_update (player this)\<rparr>))))"

text \<open>\<open>animate\<close>: one frame. When the game is over nothing is drawn or updated (and no
  further frame is requested).\<close>

definition animate :: "SpaceGame \<Rightarrow> SpaceGame" where
  "animate this = (if gameOver this then this else update (draw this))"

text \<open>The callback of \<open>enemiesSpawnLoop\<close>, run by the timer every 500 ms: \<open>unshift\<close> of a
  new enemy, then \<open>pop\<close> when the length has reached 20.\<close>

definition enemiesSpawn :: "PlayerDirection \<Rightarrow> SpaceGame \<Rightarrow> SpaceGame" where
  "enemiesSpawn direction this =
     (let this1 = this\<lparr>enemies := Enemy_new direction # enemies this\<rparr>
      in if length (enemies this1) \<ge> 20
         then this1\<lparr>enemies := butlast (enemies this1)\<rparr>
         else this1)"

text \<open>\<open>start\<close> clears the flag and runs the first frame; the timer and the later frames
  arrive as events.\<close>

definition start :: "SpaceGame \<Rightarrow> SpaceGame" where
  "start this = animate (this\<lparr>gameOver := False\<rparr>)"

text \<open>
  What the event loop can deliver after \<open>start\<close>: a key release, an animation frame, or
  a tick of the spawn timer (with the direction drawn for the new enemy). The three
  callbacks run to completion one at a time.
\<close>

datatype Event = KeyUp Key | Frame | SpawnTick PlayerDirection

fun dispatch :: "SpaceGame \<Rightarrow> Event \<Rightarrow> SpaceGame" where
  "dispatch this (KeyUp k) = this\<lparr>player := handleKeyUpInput k (player this)\<rparr>"
| "dispatch this Frame = animate this"
| "dispatch this (SpawnTick d) = enemiesSpawn d this"

definition run :: "Canvas \<Rightarrow> Event list \<Rightarrow> SpaceGame" where
  "run cv evs = foldl dispatch (start (SpaceGame_new cv)) evs"

section \<open>Properties of the hit box\<close>

text \<open>
  C4. The overlap test is symmetric in its two boxes, and two boxes that only share an
  edge (the right edge of one is the left edge of the other, or the bottom edge of one is
  the top edge of the other, in either order) do not collide, whatever their extent on
  the other axis.
\<close>

theorem collision_commutes_edges_excluded:
  "(collision a b \<longleftrightarrow> collision b a) \<and>
   (hx a + hw a = hx b \<or> hx b + hw b = hx a \<or> hy a + hh a = hy b \<or> hy b + hh b = hy a
      \<longrightarrow> \<not> collision a b)"
  by (auto simp: collision_def)

theorem collision_commutes_edges_excluded_witness:
  "hx (HitBox_new 0 0 10 10) + hw (HitBox_new 0 0 10 10) = hx (HitBox_new 10 0 10 10) \<and>
   hy (HitBox_new 0 0 10 10) < hy (HitBox_new 10 0 10 10) + hh (HitBox_new 10 0 10 10) \<and>
   hy (HitBox_new 0 0 10 10) + hh (HitBox_new 0 0 10 10) > hy (HitBox_new 10 0 10 10) \<and>
   \<not> collision (HitBox_new 0 0 10 10) (HitBox_new 10 0 10 10) \<and>
   \<not> collision (HitBox_new 10 0 10 10) (HitBox_new 0 0 10 10) \<and>
   collision (HitBox_new 0 0 10 10) (HitBox_new 9 0 10 10) \<and>
   collision (HitBox_new 9 0 10 10) (HitBox_new 0 0 10 10)"
  using collision_commutes_edges_excluded
    [of "HitBox_new 0 0 10 10" "HitBox_new 10 0 10 10"]
    collision_commutes_edges_excluded
    [of "HitBox_new 0 0 10 10" "HitBox_new 9 0 10 10"]
  by (simp add: HitBox_new_def collision_def)

section \<open>Properties of shots\<close>

lemma shot_update_cases:
  "PlayerWeaponShot_update s =
     (case s_direction s of
        Up \<Rightarrow> s\<lparr>s_y := s_y s - 3\<rparr>
      | Left \<Rightarrow> s\<lparr>s_x := s_x s - 3\<rparr>
      | Down \<Rightarrow> s\<lparr>s_y := s_y s + 3\<rparr>
      | Right \<Rightarrow> s\<lparr>s_x := s_x s + 3\<rparr>)"
  by (cases "s_direction s")
     (simp_all add: PlayerWeaponShot_update_def PlayerWeaponShot_speed_def Let_def)

lemma player_new_800_600:
  "Player_new \<lparr>width = 800, height = 600\<rparr> =
     \<lparr>p_x = 370, p_y = 270,
      p_weapon = \<lparr>w_x = 785 / 2, w_y = 240, w_w = 15, w_defaultWidth = 30, w_h = 30,
                  w_defaultHeight = 15, w_shots = [], w_ammo = 3,
                  w_hitbox = HitBox_new (785 / 2) 240 15 30\<rparr>,
      p_direction = Up,
      p_hitbox = HitBox_new 370 270 60 60\<rparr>"
  by (simp add: Player_new_def handleDirectionChange_def Let_def adjustWeapon_def
      PlayerWeapon_new_def Player_w_def Player_h_def HitBox_new_def)

text \<open>
  C6. One \<open>update\<close> of a shot moves it by the speed 3 along the axis of its direction
  and changes nothing else. On an 800 by 600 canvas the player body is at (370, 270),
  faces up, and its weapon is at height 240; releasing the space bar creates one shot at
  the weapon's position, and one update of the player leaves that shot at height
  \<open>240 - 3\<close>, with everything else as it was.
\<close>

theorem shot_update_moves_by_speed:
  "PlayerWeaponShot_update s =
     (case s_direction s of
        Up \<Rightarrow> s\<lparr>s_y := s_y s - 3\<rparr>
      | Left \<Rightarrow> s\<lparr>s_x := s_x s - 3\<rparr>
      | Down \<Rightarrow> s\<lparr>s_y := s_y s + 3\<rparr>
      | Right \<Rightarrow> s\<lparr>s_x := s_x s + 3\<rparr>) \<and>
   p_x (Player_new \<lparr>width = 800, height = 600\<rparr>) = 370 \<and>
   p_y (Player_new \<lparr>width = 800, height = 600\<rparr>) = 270 \<and>
   p_hitbox (Player_new \<lparr>width = 800, height = 600\<rparr>) = HitBox_new 370 270 60 60 \<and>
   p_direction (Player_new \<lparr>width = 800, height = 600\<rparr>) = Up \<and>
   w_y (p_weapon (Player_new \<lparr>width = 800, height = 600\<rparr>)) = 240 \<and>
   w_shots (p_weapon (handleKeyUpInput Space (Player_new \<lparr>width = 800, height = 600\<rparr>)))
     = [PlayerWeaponShot_new (785 / 2) 240 Up 30] \<and>
   w_shots (p_weapon (Player_update
       (handleKeyUpInput Space (Player_new \<lparr>width = 800, height = 600\<rparr>))))
     = [(PlayerWeaponShot_new (785 / 2) 240 Up 30)\<lparr>s_y := 240 - 3\<rparr>]"
proof -
  let ?p = "Player_new \<lparr>width = 800, height = 600\<rparr>"
  have fired: "w_shots (fire (p_direction ?p) (p_weapon ?p))
      = [PlayerWeaponShot_new (785 / 2) 240 Up 30]"
    by (simp add: player_new_800_600 fire_def)
  have moved: "map PlayerWeaponShot_update [PlayerWeaponShot_new (785 / 2) 240 Up 30]
      = [(PlayerWeaponShot_new (785 / 2) 240 Up 30)\<lparr>s_y := 240 - 3\<rparr>]"
    by (simp add: shot_update_cases PlayerWeaponShot_new_def)
  show ?thesis
    using shot_update_cases [of s] fired moved
    by (simp add: Player_update_def PlayerWeapon_update_def player_new_800_600)
qed

section \<open>Properties of enemies\<close>

lemma enemy_update_cases:
  "Enemy_update e =
     (case e_direction e of
        Up \<Rightarrow> e\<lparr>e_y := e_y e - 1\<rparr>
      | Left \<Rightarrow> e\<lparr>e_x := e_x e - 1\<rparr>
      | Down \<Rightarrow> e\<lparr>e_y := e_y e + 1\<rparr>
      | Right \<Rightarrow> e\<lparr>e_x := e_x e + 1\<rparr>)"
  by (cases "e_direction e") (simp_all add: Enemy_update_def Let_def)

lemma enemy_update_down_iter:
  "e_direction e = Down \<Longrightarrow>
     (Enemy_update ^^ n) e = e\<lparr>e_y := e_y e + of_nat n\<rparr>"
  by (induction n) (simp_all add: enemy_update_cases add.assoc)

lemma enemy_update_hitbox: "e_hitbox (Enemy_update e) = e_hitbox e"
  by (cases "e_direction e") (simp_all add: enemy_update_cases)

lemma enemy_update_hitbox_iter: "e_hitbox ((Enemy_update ^^ n) e) = e_hitbox e"
  by (induction n) (simp_all add: enemy_update_hitbox)

lemma enemy_draw_hitbox:
  "e_hitbox (Enemy_draw cv e) =
     (case e_direction e of
        Up \<Rightarrow> (e_hitbox e)\<lparr>hx := e_x e + width cv / 2 - 25 + 25 / 2,
                            hy := e_y e + height cv - 25\<rparr>
      | Left \<Rightarrow> (e_hitbox e)\<lparr>hx := e_x e + width cv - 25 + 25 / 2,
                              hy := e_y e + height cv / 2 - 25 + 25 / 2\<rparr>
      | Down \<Rightarrow> (e_hitbox e)\<lparr>hx := e_x e + width cv / 2 - 25 + 25 / 2,
                              hy := e_y e + 0 - 25\<rparr>
      | Right \<Rightarrow> (e_hitbox e)\<lparr>hx := e_x e + 0 - 25 + 25 / 2,
                               hy := e_y e + height cv / 2 - 25 + 25 / 2\<rparr>)"
  by (cases "e_direction e") (simp_all add: Enemy_draw_def Enemy_size_def Let_def)

text \<open>
  C7. One \<open>update\<close> of an enemy moves it by one unit along the axis of its direction
  and changes nothing else; an enemy heading down has, after ten updates, its \<open>y\<close>
  increased by ten and its \<open>x\<close> unchanged.
\<close>

theorem enemy_update_moves_one_unit:
  "Enemy_update e =
     (case e_direction e of
        Up \<Rightarrow> e\<lparr>e_y := e_y e - 1\<rparr>
      | Left \<Rightarrow> e\<lparr>e_x := e_x e - 1\<rparr>
      | Down \<Rightarrow> e\<lparr>e_y := e_y e + 1\<rparr>
      | Right \<Rightarrow> e\<lparr>e_x := e_x e + 1\<rparr>) \<and>
   (e_direction e = Down \<longrightarrow>
      e_y ((Enemy_update ^^ 10) e) = e_y e + 10 \<and>
      e_x ((Enemy_update ^^ 10) e) = e_x e)"
  using enemy_update_cases [of e] enemy_update_down_iter [of e 10] by simp

theorem enemy_update_moves_one_unit_witness:
  "e_direction (Enemy_new Down) = Down \<and>
   Enemy_update (Enemy_new Down) = (Enemy_new Down)\<lparr>e_y := 1\<rparr> \<and>
   e_y ((Enemy_update ^^ 10) (Enemy_new Down)) = 10 \<and>
   e_x ((Enemy_update ^^ 10) (Enemy_new Down)) = 0"
  using enemy_update_moves_one_unit [of "Enemy_new Down"]
  by (simp add: Enemy_new_def)

section \<open>The game-over passes\<close>

lemma player_loop_fields:
  "enemies (handlePlayerEnemyCollision_loop i g) = enemies g \<and>
   player (handlePlayerEnemyCollision_loop i g) = player g \<and>
   canvas (handlePlayerEnemyCollision_loop i g) = canvas g"
proof (induction i g rule: handlePlayerEnemyCollision_loop.induct)
  case (1 i this)
  show ?case
    using "1.IH" by (subst (1 2 3) handlePlayerEnemyCollision_loop.simps) simp
qed

lemma player_loop_gameOver:
  "gameOver (handlePlayerEnemyCollision_loop i g) \<longleftrightarrow>
     gameOver g \<or>
     (\<exists>k. i \<le> k \<and> k < length (enemies g) \<and>
        collision (p_hitbox (player g)) (e_hitbox (enemies g ! k)))"
proof (induction i g rule: handlePlayerEnemyCollision_loop.induct)
  case (1 i this)
  let ?hit = "\<lambda>k. collision (p_hitbox (player this)) (e_hitbox (enemies this ! k))"
  show ?case
  proof (cases "i < length (enemies this)")
    case False
    then show ?thesis
      by (subst handlePlayerEnemyCollision_loop.simps) auto
  next
    case True
    have split: "(\<exists>k. i \<le> k \<and> k < length (enemies this) \<and> ?hit k) \<longleftrightarrow>
        ?hit i \<or> (\<exists>k. Suc i \<le> k \<and> k < length (enemies this) \<and> ?hit k)"
      using True by (metis Suc_leI le_neq_implies_less le_refl Suc_leD)
    show ?thesis
    proof (cases "?hit i")
      case hit: True
      from "1.IH" [OF True] hit True show ?thesis
        by (subst handlePlayerEnemyCollision_loop.simps) auto
    next
      case miss: False
      from "1.IH" [OF True] miss True split show ?thesis
        by (subst handlePlayerEnemyCollision_loop.simps) simp
    qed
  qed
qed


lemma weapon_loop_fields:
  "enemies (handlePlayerWeaponEnemyCollision_loop i g) = enemies g \<and>
   player (handlePlayerWeaponEnemyCollision_loop i g) = player g \<and>
   canvas (handlePlayerWeaponEnemyCollision_loop i g) = canvas g"
proof (induction i g rule: handlePlayerWeaponEnemyCollision_loop.induct)
  case (1 i this)
  show ?case
    using "1.IH" by (subst (1 2 3) handlePlayerWeaponEnemyCollision_loop.simps) simp
qed

lemma weapon_loop_gameOver:
  "gameOver (handlePlayerWeaponEnemyCollision_loop i g) \<longleftrightarrow>
     gameOver g \<or>
     (\<exists>k. i \<le> k \<and> k < length (enemies g) \<and>
        collision (w_hitbox (p_weapon (player g))) (e_hitbox (enemies g ! k)))"
proof (induction i g rule: handlePlayerWeaponEnemyCollision_loop.induct)
  case (1 i this)
  let ?hit = "\<lambda>k. collision (w_hitbox (p_weapon (player this)))
                     (e_hitbox (enemies this ! k))"
  show ?case
  proof (cases "i < length (enemies this)")
    case False
    then show ?thesis
      by (subst handlePlayerWeaponEnemyCollision_loop.simps) auto
  next
    case True
    have split: "(\<exists>k. i \<le> k \<and> k < length (enemies this) \<and> ?hit k) \<longleftrightarrow>
        ?hit i \<or> (\<exists>k. Suc i \<le> k \<and> k < length (enemies this) \<and> ?hit k)"
      using True by (metis Suc_leI le_neq_implies_less le_refl Suc_leD)
    show ?thesis
    proof (cases "?hit i")
      case hit: True
      from "1.IH" [OF True] hit True show ?thesis
        by (subst handlePlayerWeaponEnemyCollision_loop.simps) auto
    next
      case miss: False
      from "1.IH" [OF True] miss True split show ?thesis
        by (subst handlePlayerWeaponEnemyCollision_loop.simps) simp
    qed
  qed
qed

lemma collision_sym: "collision a b \<longleftrightarrow> collision b a"
  by (auto simp: collision_def)

text \<open>
  C1. If the hit box of some enemy overlaps the hit box of the player's body, the flag
  is set after \<open>handlePlayerEnemyCollision\<close>; if it overlaps the hit box of the weapon,
  the flag is set after \<open>handlePlayerWeaponEnemyCollision\<close>.
\<close>

theorem overlap_sets_gameOver:
  "((\<exists>e \<in> set (enemies g). collision (e_hitbox e) (p_hitbox (player g)))
      \<longrightarrow> gameOver (handlePlayerEnemyCollision g)) \<and>
   ((\<exists>e \<in> set (enemies g). collision (e_hitbox e) (w_hitbox (p_weapon (player g))))
      \<longrightarrow> gameOver (handlePlayerWeaponEnemyCollision g))"
proof (intro conjI impI)
  assume "\<exists>e \<in> set (enemies g). collision (e_hitbox e) (p_hitbox (player g))"
  then obtain k where "k < length (enemies g)"
    and "collision (p_hitbox (player g)) (e_hitbox (enemies g ! k))"
    by (auto simp: in_set_conv_nth collision_sym [of "p_hitbox (player g)"])
  then show "gameOver (handlePlayerEnemyCollision g)"
    unfolding handlePlayerEnemyCollision_def player_loop_gameOver by blast
next
  assume "\<exists>e \<in> set (enemies g). collision (e_hitbox e) (w_hitbox (p_weapon (player g)))"
  then obtain k where "k < length (enemies g)"
    and "collision (w_hitbox (p_weapon (player g))) (e_hitbox (enemies g ! k))"
    by (auto simp: in_set_conv_nth collision_sym [of "w_hitbox (p_weapon (player g))"])
  then show "gameOver (handlePlayerWeaponEnemyCollision g)"
    unfolding handlePlayerWeaponEnemyCollision_def weapon_loop_gameOver by blast
qed

theorem overlap_sets_gameOver_witness:
  "collision (HitBox_new 380 250 25 25) (HitBox_new 370 270 60 60) \<and>
   collision (HitBox_new 380 250 25 25) (HitBox_new (785 / 2) 240 15 30) \<and>
   \<not> gameOver 
     ((SpaceGame_new \<lparr>width = 800, height = 600\<rparr>)
       \<lparr>enemies := [Enemy_new Up,
          (Enemy_new Left)\<lparr>e_hitbox := HitBox_new 380 250 25 25\<rparr>]\<rparr>) \<and>
   gameOver (handlePlayerEnemyCollision 
     ((SpaceGame_new \<lparr>width = 800, height = 600\<rparr>)
       \<lparr>enemies := [Enemy_new Up,
          (Enemy_new Left)\<lparr>e_hitbox := HitBox_new 380 250 25 25\<rparr>]\<rparr>)) \<and>
   gameOver (handlePlayerWeaponEnemyCollision 
     ((SpaceGame_new \<lparr>width = 800, height = 600\<rparr>)
       \<lparr>enemies := [Enemy_new Up,
          (Enemy_new Left)\<lparr>e_hitbox := HitBox_new 380 250 25 25\<rparr>]\<rparr>))"
  using overlap_sets_gameOver [of "(SpaceGame_new \<lparr>width = 800, height = 600\<rparr>)
       \<lparr>enemies := [Enemy_new Up,
          (Enemy_new Left)\<lparr>e_hitbox := HitBox_new 380 250 25 25\<rparr>]\<rparr>"]
  by (simp add: SpaceGame_new_def player_new_800_600 collision_def HitBox_new_def)

section \<open>The hit box of an enemy\<close>

lemma one_enemy_player_loop:
  "gameOver (handlePlayerEnemyCollision (g\<lparr>enemies := [e]\<rparr>)) \<longleftrightarrow>
     gameOver g \<or> collision (p_hitbox (player g)) (e_hitbox e)"
  by (auto simp: handlePlayerEnemyCollision_def player_loop_gameOver)

text \<open>
  C10. \<open>Enemy.update\<close> changes at most the position fields \<open>x\<close> and \<open>y\<close> and leaves
  the hit box as it is, for one enemy and for the whole collection. A new enemy has its
  hit box at the origin with width and height 25 whatever its direction, and it stays
  there under any number of updates. Only \<open>draw\<close> assigns the hit box: it leaves width
  and height and sets \<open>x\<close> and \<open>y\<close> from the position and the canvas edge of the
  direction. A collision test against a new enemy that has not been drawn therefore
  tests the box at the origin.
\<close>

theorem enemy_hitbox_only_set_by_draw:
  "Enemy_update e = e\<lparr>e_x := e_x (Enemy_update e), e_y := e_y (Enemy_update e)\<rparr> \<and>
   e_hitbox (Enemy_update e) = e_hitbox e \<and>
   map e_hitbox (enemies (updateEnemies g)) = map e_hitbox (enemies g) \<and>
   e_hitbox (Enemy_new d) = HitBox_new 0 0 25 25 \<and>
   e_hitbox ((Enemy_update ^^ n) (Enemy_new d)) = HitBox_new 0 0 25 25 \<and>
   hw (e_hitbox (Enemy_draw cv e)) = hw (e_hitbox e) \<and>
   hh (e_hitbox (Enemy_draw cv e)) = hh (e_hitbox e) \<and>
   hx (e_hitbox (Enemy_draw cv e)) =
     (case e_direction e of
        Up \<Rightarrow> e_x e + width cv / 2 - 25 + 25 / 2
      | Left \<Rightarrow> e_x e + width cv - 25 + 25 / 2
      | Down \<Rightarrow> e_x e + width cv / 2 - 25 + 25 / 2
      | Right \<Rightarrow> e_x e + 0 - 25 + 25 / 2) \<and>
   hy (e_hitbox (Enemy_draw cv e)) =
     (case e_direction e of
        Up \<Rightarrow> e_y e + height cv - 25
      | Left \<Rightarrow> e_y e + height cv / 2 - 25 + 25 / 2
      | Down \<Rightarrow> e_y e + 0 - 25
      | Right \<Rightarrow> e_y e + height cv / 2 - 25 + 25 / 2) \<and>
   (gameOver (handlePlayerEnemyCollision (g\<lparr>enemies := [Enemy_new d]\<rparr>)) \<longleftrightarrow>
      gameOver g \<or> collision (p_hitbox (player g)) (HitBox_new 0 0 25 25))"
proof -
  have a: "Enemy_update e = e\<lparr>e_x := e_x (Enemy_update e), e_y := e_y (Enemy_update e)\<rparr>"
    by (cases "e_direction e") (simp_all add: enemy_update_cases)
  have b: "map e_hitbox (enemies (updateEnemies g)) = map e_hitbox (enemies g)"
    by (simp add: updateEnemies_def enemy_update_hitbox comp_def)
  have c: "e_hitbox (Enemy_new d) = HitBox_new 0 0 25 25"
    by (simp add: Enemy_new_def Enemy_size_def)
  have d: "hw (e_hitbox (Enemy_draw cv e)) = hw (e_hitbox e)"
      "hh (e_hitbox (Enemy_draw cv e)) = hh (e_hitbox e)"
    by (cases "e_direction e"; simp add: enemy_draw_hitbox)+
  have e: "hx (e_hitbox (Enemy_draw cv e)) =
     (case e_direction e of
        Up \<Rightarrow> e_x e + width cv / 2 - 25 + 25 / 2
      | Left \<Rightarrow> e_x e + width cv - 25 + 25 / 2
      | Down \<Rightarrow> e_x e + width cv / 2 - 25 + 25 / 2
      | Right \<Rightarrow> e_x e + 0 - 25 + 25 / 2)"
    by (cases "e_direction e"; simp add: enemy_draw_hitbox)
  have f: "hy (e_hitbox (Enemy_draw cv e)) =
     (case e_direction e of
        Up \<Rightarrow> e_y e + height cv - 25
      | Left \<Rightarrow> e_y e + height cv / 2 - 25 + 25 / 2
      | Down \<Rightarrow> e_y e + 0 - 25
      | Right \<Rightarrow> e_y e + height cv / 2 - 25 + 25 / 2)"
    by (cases "e_direction e"; simp add: enemy_draw_hitbox)
  from a b c d e f show ?thesis
    by (simp only: enemy_update_hitbox enemy_update_hitbox_iter one_enemy_player_loop
        simp_thms)
qed

section \<open>Ammunition\<close>

lemma weaponCall_ammo:
  "0 \<le> w_ammo w \<and> w_ammo w \<le> 3 \<Longrightarrow>
   0 \<le> w_ammo (weaponCall w c) \<and> w_ammo (weaponCall w c) \<le> 3"
  by (cases c) (auto simp: fire_def reload_def)

lemma weaponCalls_ammo:
  "0 \<le> w_ammo w \<and> w_ammo w \<le> 3 \<Longrightarrow>
   0 \<le> w_ammo (foldl weaponCall w cs) \<and> w_ammo (foldl weaponCall w cs) \<le> 3"
proof (induction cs arbitrary: w)
  case Nil
  then show ?case by simp
next
  case (Cons c cs)
  from Cons.IH [OF weaponCall_ammo [OF Cons.prems, of c]] show ?case by simp
qed

text \<open>
  C2. From a new weapon, after any finite sequence of \<open>fire\<close> and \<open>reload\<close> calls the
  ammunition is between 0 and 3. \<open>fire\<close> with no ammunition changes nothing (neither the
  count nor the shots); \<open>fire\<close> with ammunition puts exactly one new shot in front of
  the shots and takes one off the count; \<open>reload\<close> with ammunition left changes nothing;
  \<open>reload\<close> with none sets the count to 3.
\<close>

theorem ammo_invariant_fire_reload:
  "0 \<le> w_ammo (foldl weaponCall (PlayerWeapon_new playerWidth) cs) \<and>
   w_ammo (foldl weaponCall (PlayerWeapon_new playerWidth) cs) \<le> 3 \<and>
   (w_ammo w = 0 \<longrightarrow> fire d w = w) \<and>
   (w_ammo w > 0 \<longrightarrow>
      fire d w = w\<lparr>w_shots := PlayerWeaponShot_new (w_x w) (w_y w) d (w_defaultWidth w)
                               # w_shots w,
                   w_ammo := w_ammo w - 1\<rparr>) \<and>
   (w_ammo w > 0 \<longrightarrow> reload w = w) \<and>
   (w_ammo w = 0 \<longrightarrow> reload w = w\<lparr>w_ammo := 3\<rparr>)"
proof -
  have "0 \<le> w_ammo (PlayerWeapon_new playerWidth) \<and> w_ammo (PlayerWeapon_new playerWidth) \<le> 3"
    by (simp add: PlayerWeapon_new_def)
  from weaponCalls_ammo [OF this, of cs] show ?thesis
    by (simp add: fire_def reload_def)
qed

theorem ammo_invariant_fire_reload_witness:
  "w_ammo (PlayerWeapon_new 60) = 3 \<and>
   w_ammo (fire Up (PlayerWeapon_new 60)) = 2 \<and>
   w_shots (fire Up (PlayerWeapon_new 60)) = [PlayerWeaponShot_new 0 0 Up 30] \<and>
   reload (PlayerWeapon_new 60) = PlayerWeapon_new 60 \<and>
   w_ammo ((PlayerWeapon_new 60)\<lparr>w_ammo := 0\<rparr>) = 0 \<and>
   fire Up ((PlayerWeapon_new 60)\<lparr>w_ammo := 0\<rparr>) = (PlayerWeapon_new 60)\<lparr>w_ammo := 0\<rparr> \<and>
   reload ((PlayerWeapon_new 60)\<lparr>w_ammo := 0\<rparr>) = PlayerWeapon_new 60 \<and>
   w_ammo (foldl weaponCall (PlayerWeapon_new 60)
     [FireCall Up, FireCall Left, FireCall Down, FireCall Right, ReloadCall, FireCall Up]) = 2"
  using ammo_invariant_fire_reload [of 60 "[]" "PlayerWeapon_new 60" Up]
    ammo_invariant_fire_reload [of 60 "[]" "(PlayerWeapon_new 60)\<lparr>w_ammo := 0\<rparr>" Up]
  by (simp add: PlayerWeapon_new_def fire_def reload_def)

section \<open>The shot pass\<close>

lemma shot_update_hitbox: "s_hitbox (PlayerWeaponShot_update s) = s_hitbox s"
  by (cases "s_direction s") (simp_all add: shot_update_cases)

lemma outer_one_shot_one_enemy:
  "collision (s_hitbox s) (e_hitbox e) \<Longrightarrow>
     handleShotEnemyCollision_outer 0 ([s], [e]) = ([], [])"
  by (simp add: handleShotEnemyCollision_outer.simps handleShotEnemyCollision_inner.simps
      splice1_def)

lemma outer_one_shot_two_enemies:
  "collision (s_hitbox s) (e_hitbox e0) \<Longrightarrow>
     handleShotEnemyCollision_outer 0 ([s], [e0, e1]) = ([], [e1])"
  by (simp add: handleShotEnemyCollision_outer.simps handleShotEnemyCollision_inner.simps
      splice1_def)

lemma outer_one_shot_two_enemies_second:
  "\<not> collision (s_hitbox s) (e_hitbox e0) \<Longrightarrow> collision (s_hitbox s) (e_hitbox e1) \<Longrightarrow>
     handleShotEnemyCollision_outer 0 ([s], [e0, e1]) = ([], [e0])"
  by (simp add: handleShotEnemyCollision_outer.simps handleShotEnemyCollision_inner.simps
      splice1_def)

lemma outer_one_shot_three_enemies:
  "collision (s_hitbox s) (e_hitbox e0) \<Longrightarrow> collision (s_hitbox s) (e_hitbox e2) \<Longrightarrow>
     handleShotEnemyCollision_outer 0 ([s], [e0, e1, e2]) = ([], [e1])"
  by (simp add: handleShotEnemyCollision_outer.simps handleShotEnemyCollision_inner.simps
      splice1_def)

lemma player_loop_no_enemies:
  "enemies g = [] \<Longrightarrow> handlePlayerEnemyCollision g = g"
  by (simp add: handlePlayerEnemyCollision_def handlePlayerEnemyCollision_loop.simps)

lemma weapon_loop_no_enemies:
  "enemies g = [] \<Longrightarrow> handlePlayerWeaponEnemyCollision g = g"
  by (simp add: handlePlayerWeaponEnemyCollision_def
      handlePlayerWeaponEnemyCollision_loop.simps)

lemma inner_enemies_length:
  "length (snd (handleShotEnemyCollision_inner shot i j p)) \<le> length (snd p)"
proof (induction shot i j p rule: handleShotEnemyCollision_inner.induct)
  case (1 shot i j shots es)
  show ?case
  proof (cases "j < length es")
    case False
    then show ?thesis by (simp add: handleShotEnemyCollision_inner.simps)
  next
    case lt: True
    show ?thesis
    proof (cases "collision (s_hitbox shot) (e_hitbox (es ! j))")
      case True
      from "1.IH"(1) [OF lt True]
      have "length (snd (handleShotEnemyCollision_inner shot i (Suc j)
              (splice1 i shots, splice1 j es))) \<le> length (splice1 j es)"
        by simp
      also have "\<dots> \<le> length es" by (rule length_splice1)
      finally show ?thesis
        using lt True by (subst handleShotEnemyCollision_inner.simps) simp
    next
      case False
      from "1.IH"(2) [OF lt False]
      show ?thesis
        using lt False by (subst handleShotEnemyCollision_inner.simps) simp
    qed
  qed
qed

lemma outer_enemies_length:
  "length (snd (handleShotEnemyCollision_outer i p)) \<le> length (snd p)"
proof (induction i p rule: handleShotEnemyCollision_outer.induct)
  case (1 i shots es)
  show ?case
  proof (cases "i < length shots")
    case False
    then show ?thesis by (simp add: handleShotEnemyCollision_outer.simps)
  next
    case True
    from "1.IH" [OF True]
    have "length (snd (handleShotEnemyCollision_outer (Suc i)
            (handleShotEnemyCollision_inner (shots ! i) i 0 (shots, es))))
          \<le> length (snd (handleShotEnemyCollision_inner (shots ! i) i 0 (shots, es)))" .
    also have "\<dots> \<le> length es"
      using inner_enemies_length [of "shots ! i" i 0 "(shots, es)"] by simp
    finally show ?thesis
      using True by (subst handleShotEnemyCollision_outer.simps) simp
  qed
qed

lemma handleShotEnemyCollision_fields:
  "enemies (handleShotEnemyCollision g) =
     snd (handleShotEnemyCollision_outer 0 (w_shots (p_weapon (player g)), enemies g)) \<and>
   w_shots (p_weapon (player (handleShotEnemyCollision g))) =
     fst (handleShotEnemyCollision_outer 0 (w_shots (p_weapon (player g)), enemies g)) \<and>
   gameOver (handleShotEnemyCollision g) = gameOver g"
  by (simp add: handleShotEnemyCollision_def case_prod_unfold)

lemma handleShotEnemyCollision_enemies_length:
  "length (enemies (handleShotEnemyCollision g)) \<le> length (enemies g)"
  using outer_enemies_length [of 0 "(w_shots (p_weapon (player g)), enemies g)"]
  by (simp add: handleShotEnemyCollision_fields)

text \<open>
  C5. In a running game with exactly one shot and exactly one enemy whose hit boxes
  overlap, the shot pass alone, and the whole \<open>update\<close> of one tick, leave no shot and
  no enemy, and the game is not over afterwards. (Whether the enemy also overlaps the
  player or the weapon does not matter: it is gone before those passes run.)
\<close>

theorem one_shot_one_enemy_eliminated:
  assumes "w_shots (p_weapon (player g)) = [s]" and "enemies g = [e]"
    and "collision (s_hitbox s) (e_hitbox e)" and "\<not> gameOver g"
  shows "w_shots (p_weapon (player (handleShotEnemyCollision g))) = [] \<and>
         enemies (handleShotEnemyCollision g) = [] \<and>
         \<not> gameOver (handleShotEnemyCollision g) \<and>
         w_shots (p_weapon (player (update g))) = [] \<and>
         enemies (update g) = [] \<and>
         \<not> gameOver (update g)"
proof -
  let ?g' = "updateEnemies (g\<lparr>player := Player_update (player g)\<rparr>)"
  have pass: "w_shots (p_weapon (player (handleShotEnemyCollision g))) = [] \<and>
         enemies (handleShotEnemyCollision g) = [] \<and>
         \<not> gameOver (handleShotEnemyCollision g)"
    using assms by (simp add: handleShotEnemyCollision_def outer_one_shot_one_enemy)
  have shots': "w_shots (p_weapon (player ?g')) = [PlayerWeaponShot_update s]"
    using assms(1) by (simp add: updateEnemies_def Player_update_def PlayerWeapon_update_def)
  have es': "enemies ?g' = [Enemy_update e]"
    using assms(2) by (simp add: updateEnemies_def)
  have hit': "collision (s_hitbox (PlayerWeaponShot_update s)) (e_hitbox (Enemy_update e))"
    using assms(3) by (simp add: shot_update_hitbox enemy_update_hitbox)
  have go': "\<not> gameOver ?g'"
    using assms(4) by (simp add: updateEnemies_def)
  let ?h = "handleShotEnemyCollision ?g'"
  have h: "w_shots (p_weapon (player ?h)) = [] \<and> enemies ?h = [] \<and> \<not> gameOver ?h"
    using shots' es' hit' go'
    by (simp add: handleShotEnemyCollision_def outer_one_shot_one_enemy)
  then have "update g = ?h"
    by (simp add: update_def player_loop_no_enemies weapon_loop_no_enemies)
  with h pass show ?thesis by simp
qed

theorem one_shot_one_enemy_eliminated_witness:
  "collision (HitBox_new 100 100 5 5) (HitBox_new 90 90 25 25) \<and>
   \<not> gameOver ((SpaceGame_new \<lparr>width = 800, height = 600\<rparr>)
      \<lparr>player := (Player_new \<lparr>width = 800, height = 600\<rparr>)
         \<lparr>p_weapon := (p_weapon (Player_new \<lparr>width = 800, height = 600\<rparr>))
            \<lparr>w_shots := [PlayerWeaponShot_new 100 100 Up 30]\<rparr>\<rparr>,
       enemies := [(Enemy_new Down)\<lparr>e_hitbox := HitBox_new 90 90 25 25\<rparr>]\<rparr>) \<and>
   w_shots (p_weapon (player (update ((SpaceGame_new \<lparr>width = 800, height = 600\<rparr>)
      \<lparr>player := (Player_new \<lparr>width = 800, height = 600\<rparr>)
         \<lparr>p_weapon := (p_weapon (Player_new \<lparr>width = 800, height = 600\<rparr>))
            \<lparr>w_shots := [PlayerWeaponShot_new 100 100 Up 30]\<rparr>\<rparr>,
       enemies := [(Enemy_new Down)\<lparr>e_hitbox := HitBox_new 90 90 25 25\<rparr>]\<rparr>)))) = [] \<and>
   enemies (update ((SpaceGame_new \<lparr>width = 800, height = 600\<rparr>)
      \<lparr>player := (Player_new \<lparr>width = 800, height = 600\<rparr>)
         \<lparr>p_weapon := (p_weapon (Player_new \<lparr>width = 800, height = 600\<rparr>))
            \<lparr>w_shots := [PlayerWeaponShot_new 100 100 Up 30]\<rparr>\<rparr>,
       enemies := [(Enemy_new Down)\<lparr>e_hitbox := HitBox_new 90 90 25 25\<rparr>]\<rparr>)) = [] \<and>
   \<not> gameOver (update ((SpaceGame_new \<lparr>width = 800, height = 600\<rparr>)
      \<lparr>player := (Player_new \<lparr>width = 800, height = 600\<rparr>)
         \<lparr>p_weapon := (p_weapon (Player_new \<lparr>width = 800, height = 600\<rparr>))
            \<lparr>w_shots := [PlayerWeaponShot_new 100 100 Up 30]\<rparr>\<rparr>,
       enemies := [(Enemy_new Down)\<lparr>e_hitbox := HitBox_new 90 90 25 25\<rparr>]\<rparr>))"
proof -
  have hit: "collision (HitBox_new 100 100 5 5) (HitBox_new 90 90 25 25)"
    by (simp add: collision_def HitBox_new_def)
  show ?thesis
    using hit one_shot_one_enemy_eliminated
      [of "(SpaceGame_new \<lparr>width = 800, height = 600\<rparr>)
      \<lparr>player := (Player_new \<lparr>width = 800, height = 600\<rparr>)
         \<lparr>p_weapon := (p_weapon (Player_new \<lparr>width = 800, height = 600\<rparr>))
            \<lparr>w_shots := [PlayerWeaponShot_new 100 100 Up 30]\<rparr>\<rparr>,
       enemies := [(Enemy_new Down)\<lparr>e_hitbox := HitBox_new 90 90 25 25\<rparr>]\<rparr>"
       "PlayerWeaponShot_new 100 100 Up 30"
       "(Enemy_new Down)\<lparr>e_hitbox := HitBox_new 90 90 25 25\<rparr>"]
    by (simp add: SpaceGame_new_def PlayerWeaponShot_new_def PlayerWeaponShot_size_def)
qed

text \<open>
  C8. One shot does not take out both of exactly two enemies it overlaps: after the
  first hit the second enemy moves to index 0 while \<open>j\<close> moves on to 1, so the inner
  loop ends and the second enemy stays. The stale \<open>shot\<close> variable does
  remove a second enemy when there are three enemies and the shot overlaps the first and
  the third: the shot is spliced out on the first hit, the second enemy is skipped, and
  the third is tested against the removed shot and spliced out as well. So with three
  enemies only the middle one is left, and with two enemies the second one is left.
\<close>

theorem stale_shot_skips_next_enemy:
  "(w_shots (p_weapon (player g)) = [s] \<and> enemies g = [e0, e1, e2] \<and>
    collision (s_hitbox s) (e_hitbox e0) \<and> collision (s_hitbox s) (e_hitbox e2)
      \<longrightarrow> w_shots (p_weapon (player (handleShotEnemyCollision g))) = [] \<and>
          enemies (handleShotEnemyCollision g) = [e1]) \<and>
   (w_shots (p_weapon (player g)) = [s] \<and> enemies g = [e0, e1] \<and>
    collision (s_hitbox s) (e_hitbox e0)
      \<longrightarrow> w_shots (p_weapon (player (handleShotEnemyCollision g))) = [] \<and>
          enemies (handleShotEnemyCollision g) = [e1])"
  by (simp add: handleShotEnemyCollision_fields outer_one_shot_two_enemies
      outer_one_shot_three_enemies)

theorem stale_shot_skips_next_enemy_witness:
  "collision (HitBox_new 100 100 5 5) (HitBox_new 90 90 25 25) \<and>
   \<not> collision (HitBox_new 100 100 5 5) (HitBox_new 300 300 25 25) \<and>
   collision (HitBox_new 100 100 5 5) (HitBox_new 95 95 25 25) \<and>
   enemies (handleShotEnemyCollision ((SpaceGame_new \<lparr>width = 800, height = 600\<rparr>)
      \<lparr>player := (Player_new \<lparr>width = 800, height = 600\<rparr>)
         \<lparr>p_weapon := (p_weapon (Player_new \<lparr>width = 800, height = 600\<rparr>))
            \<lparr>w_shots := [PlayerWeaponShot_new 100 100 Up 30]\<rparr>\<rparr>,
       enemies := [(Enemy_new Down)\<lparr>e_hitbox := HitBox_new 90 90 25 25\<rparr>,
                   (Enemy_new Left)\<lparr>e_hitbox := HitBox_new 300 300 25 25\<rparr>,
                   (Enemy_new Up)\<lparr>e_hitbox := HitBox_new 95 95 25 25\<rparr>]\<rparr>))
     = [(Enemy_new Left)\<lparr>e_hitbox := HitBox_new 300 300 25 25\<rparr>] \<and>
   w_shots (p_weapon (player (handleShotEnemyCollision
     ((SpaceGame_new \<lparr>width = 800, height = 600\<rparr>)
      \<lparr>player := (Player_new \<lparr>width = 800, height = 600\<rparr>)
         \<lparr>p_weapon := (p_weapon (Player_new \<lparr>width = 800, height = 600\<rparr>))
            \<lparr>w_shots := [PlayerWeaponShot_new 100 100 Up 30]\<rparr>\<rparr>,
       enemies := [(Enemy_new Down)\<lparr>e_hitbox := HitBox_new 90 90 25 25\<rparr>,
                   (Enemy_new Left)\<lparr>e_hitbox := HitBox_new 300 300 25 25\<rparr>,
                   (Enemy_new Up)\<lparr>e_hitbox := HitBox_new 95 95 25 25\<rparr>]\<rparr>)))) = []"
proof -
  have hit: "collision (HitBox_new 100 100 5 5) (HitBox_new 90 90 25 25)"
    "\<not> collision (HitBox_new 100 100 5 5) (HitBox_new 300 300 25 25)"
    "collision (HitBox_new 100 100 5 5) (HitBox_new 95 95 25 25)"
    by (simp_all add: collision_def HitBox_new_def)
  show ?thesis
    using hit stale_shot_skips_next_enemy
      [of "(SpaceGame_new \<lparr>width = 800, height = 600\<rparr>)
      \<lparr>player := (Player_new \<lparr>width = 800, height = 600\<rparr>)
         \<lparr>p_weapon := (p_weapon (Player_new \<lparr>width = 800, height = 600\<rparr>))
            \<lparr>w_shots := [PlayerWeaponShot_new 100 100 Up 30]\<rparr>\<rparr>,
       enemies := [(Enemy_new Down)\<lparr>e_hitbox := HitBox_new 90 90 25 25\<rparr>,
                   (Enemy_new Left)\<lparr>e_hitbox := HitBox_new 300 300 25 25\<rparr>,
                   (Enemy_new Up)\<lparr>e_hitbox := HitBox_new 95 95 25 25\<rparr>]\<rparr>"
       "PlayerWeaponShot_new 100 100 Up 30"
       "(Enemy_new Down)\<lparr>e_hitbox := HitBox_new 90 90 25 25\<rparr>"
       "(Enemy_new Left)\<lparr>e_hitbox := HitBox_new 300 300 25 25\<rparr>"
       "(Enemy_new Up)\<lparr>e_hitbox := HitBox_new 95 95 25 25\<rparr>"]
    by (simp add: SpaceGame_new_def PlayerWeaponShot_new_def PlayerWeaponShot_size_def)
qed

text \<open>
  With one shot at (100, 100) and two enemies whose hit boxes at (90, 90) and (95, 95)
  both contain it, the shot pass leaves the second enemy; and no game with exactly one
  shot and exactly two enemies, both overlapped by the shot, has an empty enemy
  collection after the shot pass.
\<close>

theorem stale_shot_two_enemies_counterexample:
  "collision (HitBox_new 100 100 5 5) (HitBox_new 90 90 25 25) \<and>
   collision (HitBox_new 100 100 5 5) (HitBox_new 95 95 25 25) \<and>
   enemies (handleShotEnemyCollision
     ((SpaceGame_new \<lparr>width = 800, height = 600\<rparr>)
      \<lparr>player := (Player_new \<lparr>width = 800, height = 600\<rparr>)
         \<lparr>p_weapon := (p_weapon (Player_new \<lparr>width = 800, height = 600\<rparr>))
            \<lparr>w_shots := [PlayerWeaponShot_new 100 100 Up 30]\<rparr>\<rparr>,
       enemies := [(Enemy_new Down)\<lparr>e_hitbox := HitBox_new 90 90 25 25\<rparr>,
                   (Enemy_new Up)\<lparr>e_hitbox := HitBox_new 95 95 25 25\<rparr>]\<rparr>))
     = [(Enemy_new Up)\<lparr>e_hitbox := HitBox_new 95 95 25 25\<rparr>] \<and>
   \<not> (\<exists>g s e0 e1.
        w_shots (p_weapon (player g)) = [s] \<and> enemies g = [e0, e1] \<and>
        collision (s_hitbox s) (e_hitbox e0) \<and> collision (s_hitbox s) (e_hitbox e1) \<and>
        enemies (handleShotEnemyCollision g) = [])"
proof (intro conjI)
  show hit0: "collision (HitBox_new 100 100 5 5) (HitBox_new 90 90 25 25)"
    by (simp add: collision_def HitBox_new_def)
  show "collision (HitBox_new 100 100 5 5) (HitBox_new 95 95 25 25)"
    by (simp add: collision_def HitBox_new_def)
  from hit0 show "enemies (handleShotEnemyCollision
     ((SpaceGame_new \<lparr>width = 800, height = 600\<rparr>)
      \<lparr>player := (Player_new \<lparr>width = 800, height = 600\<rparr>)
         \<lparr>p_weapon := (p_weapon (Player_new \<lparr>width = 800, height = 600\<rparr>))
            \<lparr>w_shots := [PlayerWeaponShot_new 100 100 Up 30]\<rparr>\<rparr>,
       enemies := [(Enemy_new Down)\<lparr>e_hitbox := HitBox_new 90 90 25 25\<rparr>,
                   (Enemy_new Up)\<lparr>e_hitbox := HitBox_new 95 95 25 25\<rparr>]\<rparr>))
     = [(Enemy_new Up)\<lparr>e_hitbox := HitBox_new 95 95 25 25\<rparr>]"
    by (simp add: handleShotEnemyCollision_fields outer_one_shot_two_enemies
        SpaceGame_new_def PlayerWeaponShot_new_def PlayerWeaponShot_size_def)
  show "\<not> (\<exists>g s e0 e1.
        w_shots (p_weapon (player g)) = [s] \<and> enemies g = [e0, e1] \<and>
        collision (s_hitbox s) (e_hitbox e0) \<and> collision (s_hitbox s) (e_hitbox e1) \<and>
        enemies (handleShotEnemyCollision g) = [])"
  proof
    assume "\<exists>g s e0 e1.
        w_shots (p_weapon (player g)) = [s] \<and> enemies g = [e0, e1] \<and>
        collision (s_hitbox s) (e_hitbox e0) \<and> collision (s_hitbox s) (e_hitbox e1) \<and>
        enemies (handleShotEnemyCollision g) = []"
    then obtain g s e0 e1 where shots: "w_shots (p_weapon (player g)) = [s]"
      and es: "enemies g = [e0, e1]"
      and hit: "collision (s_hitbox s) (e_hitbox e0)"
      and gone: "enemies (handleShotEnemyCollision g) = []"
      by blast
    from shots es hit have "enemies (handleShotEnemyCollision g) = [e1]"
      by (simp add: handleShotEnemyCollision_fields outer_one_shot_two_enemies)
    with gone show False by simp
  qed
qed

section \<open>Spawning\<close>

lemma update_enemies_length: "length (enemies (update g)) \<le> length (enemies g)"
proof -
  let ?g' = "updateEnemies (g\<lparr>player := Player_update (player g)\<rparr>)"
  have "enemies (update g) = enemies (handleShotEnemyCollision ?g')"
    by (simp add: update_def handlePlayerWeaponEnemyCollision_def
        handlePlayerEnemyCollision_def weapon_loop_fields player_loop_fields)
  also have "length \<dots> \<le> length (enemies ?g')"
    by (rule handleShotEnemyCollision_enemies_length)
  also have "\<dots> = length (enemies g)"
    by (simp add: updateEnemies_def)
  finally show ?thesis .
qed

lemma animate_enemies_length: "length (enemies (animate g)) \<le> length (enemies g)"
proof (cases "gameOver g")
  case True
  then show ?thesis by (simp add: animate_def)
next
  case False
  have "length (enemies (update (draw g))) \<le> length (enemies (draw g))"
    by (rule update_enemies_length)
  also have "\<dots> = length (enemies g)"
    by (simp add: draw_def drawEnemies_def)
  finally show ?thesis using False by (simp add: animate_def)
qed

lemma enemiesSpawn_enemies:
  "length (enemies g) \<le> 19 \<Longrightarrow>
     enemies (enemiesSpawn d g) = take 19 (Enemy_new d # enemies g)"
proof -
  assume le: "length (enemies g) \<le> 19"
  show ?thesis
  proof (cases "length (enemies g) = 19")
    case True
    then have "enemies g \<noteq> []" by auto
    with True show ?thesis
      by (simp add: enemiesSpawn_def Let_def butlast_conv_take)
  next
    case False
    with le have "length (enemies g) < 19" by simp
    then show ?thesis by (simp add: enemiesSpawn_def Let_def)
  qed
qed

lemma dispatch_enemies_le_19:
  "length (enemies g) \<le> 19 \<Longrightarrow> length (enemies (dispatch g ev)) \<le> 19"
proof (cases ev)
  case (KeyUp k)
  assume "length (enemies g) \<le> 19"
  with KeyUp show ?thesis by simp
next
  case Frame
  assume "length (enemies g) \<le> 19"
  with Frame animate_enemies_length [of g] show ?thesis by simp
next
  case (SpawnTick d)
  assume "length (enemies g) \<le> 19"
  with SpawnTick show ?thesis by (simp add: enemiesSpawn_enemies)
qed

lemma foldl_dispatch_enemies_le_19:
  "length (enemies g) \<le> 19 \<Longrightarrow> length (enemies (foldl dispatch g evs)) \<le> 19"
  by (induction evs arbitrary: g) (simp_all add: dispatch_enemies_le_19)

lemma start_enemies: "enemies (start (SpaceGame_new cv)) = []"
proof -
  have "length (enemies (start (SpaceGame_new cv))) \<le> length (enemies ((SpaceGame_new cv)\<lparr>gameOver := False\<rparr>))"
    unfolding start_def by (rule animate_enemies_length)
  then show ?thesis by (simp add: SpaceGame_new_def)
qed

lemma run_enemies_le_19: "length (enemies (run cv evs)) \<le> 19"
  unfolding run_def by (rule foldl_dispatch_enemies_le_19) (simp add: start_enemies)

lemma run_spawns_enemies:
  "enemies (run cv (map SpawnTick ds)) = take 19 (map Enemy_new (rev ds))"
proof (induction ds rule: rev_induct)
  case Nil
  show ?case by (simp add: run_def start_enemies)
next
  case (snoc d ds)
  have "enemies (run cv (map SpawnTick (ds @ [d])))
      = enemies (enemiesSpawn d (run cv (map SpawnTick ds)))"
    by (simp add: run_def)
  also have "\<dots> = take 19 (Enemy_new d # enemies (run cv (map SpawnTick ds)))"
    by (rule enemiesSpawn_enemies) (rule run_enemies_le_19)
  also have "\<dots> = take 19 (Enemy_new d # take 19 (map Enemy_new (rev ds)))"
    by (simp only: snoc.IH)
  also have "\<dots> = take 19 (map Enemy_new (rev (ds @ [d])))"
    by (simp add: take_Cons')
  finally show ?case .
qed

text \<open>
  C3. Whatever events a game has seen, its enemy collection holds at most 20 enemies, also
  between the \<open>unshift\<close> and the \<open>pop\<close> of a spawn. After 20 spawn ticks (and no other
  event) the collection holds 19 enemies and its last entry is the second enemy spawned;
  the 21st spawn tick puts the new enemy in front and drops exactly that last entry.
\<close>

theorem spawn_cap_oldest_evicted:
  "length (enemies (run cv evs)) \<le> 20 \<and>
   length (Enemy_new d # enemies (run cv evs)) \<le> 20 \<and>
   (length ds = 20 \<longrightarrow>
      length (enemies (run cv (map SpawnTick ds))) = 19 \<and>
      last (enemies (run cv (map SpawnTick ds))) = Enemy_new (ds ! 1) \<and>
      enemies (run cv (map SpawnTick (ds @ [d])))
        = Enemy_new d # butlast (enemies (run cv (map SpawnTick ds))))"
proof (intro conjI impI)
  show "length (enemies (run cv evs)) \<le> 20"
    using run_enemies_le_19 [of cv evs] by simp
  show "length (Enemy_new d # enemies (run cv evs)) \<le> 20"
    using run_enemies_le_19 [of cv evs] by simp
next
  assume len: "length ds = 20"
  then show l19: "length (enemies (run cv (map SpawnTick ds))) = 19"
    by (simp add: run_spawns_enemies)
  from len have ne: "take 19 (map Enemy_new (rev ds)) \<noteq> []"
    and l: "length (take 19 (map Enemy_new (rev ds))) = 19"
    by auto
  from last_conv_nth [OF ne] l
  have "last (take 19 (map Enemy_new (rev ds))) = take 19 (map Enemy_new (rev ds)) ! 18"
    by simp
  also from len have "\<dots> = Enemy_new (rev ds ! 18)"
    by simp
  also from len have "\<dots> = Enemy_new (ds ! 1)"
    by (simp add: rev_nth)
  finally show "last (enemies (run cv (map SpawnTick ds))) = Enemy_new (ds ! 1)"
    by (simp add: run_spawns_enemies)
  have "enemies (run cv (map SpawnTick (ds @ [d])))
      = enemies (enemiesSpawn d (run cv (map SpawnTick ds)))"
    by (simp add: run_def)
  also from l19 have "\<dots> = Enemy_new d # butlast (enemies (run cv (map SpawnTick ds)))"
    by (auto simp: enemiesSpawn_def Let_def)
  finally show "enemies (run cv (map SpawnTick (ds @ [d])))
      = Enemy_new d # butlast (enemies (run cv (map SpawnTick ds)))" .
qed

theorem spawn_cap_oldest_evicted_witness:
  "length [Up, Left, Down, Right, Up, Left, Down, Right, Up, Left, Down, Right, Up, Left, Down, Right, Up, Left, Down, Right] = 20 \<and>
   length (enemies (run \<lparr>width = 800, height = 600\<rparr> (map SpawnTick
     [Up, Left, Down, Right, Up, Left, Down, Right, Up, Left, Down, Right, Up, Left, Down, Right, Up, Left, Down, Right]))) = 19 \<and>
   last (enemies (run \<lparr>width = 800, height = 600\<rparr> (map SpawnTick
     [Up, Left, Down, Right, Up, Left, Down, Right, Up, Left, Down, Right, Up, Left, Down, Right, Up, Left, Down, Right]))) = Enemy_new Left \<and>
   enemies (run \<lparr>width = 800, height = 600\<rparr> (map SpawnTick
     ([Up, Left, Down, Right, Up, Left, Down, Right, Up, Left, Down, Right, Up, Left, Down, Right, Up, Left, Down, Right] @ [Down])))
   = map Enemy_new [Down, Right, Down, Left, Up, Right, Down, Left, Up, Right, Down, Left, Up, Right, Down, Left, Up, Right, Down]"
  using spawn_cap_oldest_evicted [of "\<lparr>width = 800, height = 600\<rparr>" "[]" Down
    "[Up, Left, Down, Right, Up, Left, Down, Right, Up, Left, Down, Right, Up, Left, Down, Right, Up, Left, Down, Right]"]
  unfolding run_spawns_enemies by simp

text \<open>
  C9. After a spawn tick, following any events of a game, the enemy collection holds at
  most 19 enemies. The callback keeps the bound 19; when the collection holds 19 enemies
  it puts the new one in front and drops the last, leaving 19.
\<close>

theorem spawn_leaves_at_most_19:
  "length (enemies (run cv (evs @ [SpawnTick d]))) \<le> 19 \<and>
   (length (enemies g) \<le> 19 \<longrightarrow> length (enemies (enemiesSpawn d g)) \<le> 19) \<and>
   (length (enemies g) = 19 \<longrightarrow>
      enemies (enemiesSpawn d g) = Enemy_new d # butlast (enemies g) \<and>
      length (enemies (enemiesSpawn d g)) = 19)"
proof (intro conjI impI)
  show "length (enemies (run cv (evs @ [SpawnTick d]))) \<le> 19"
    by (rule run_enemies_le_19)
next
  assume "length (enemies g) \<le> 19"
  then show "length (enemies (enemiesSpawn d g)) \<le> 19"
    by (simp add: enemiesSpawn_enemies)
next
  assume "length (enemies g) = 19"
  then show "enemies (enemiesSpawn d g) = Enemy_new d # butlast (enemies g)"
    and "length (enemies (enemiesSpawn d g)) = 19"
    by (auto simp: enemiesSpawn_def Let_def)
qed

theorem spawn_leaves_at_most_19_witness:
  "length (enemies (run \<lparr>width = 800, height = 600\<rparr> (map SpawnTick
     [Up, Left, Down, Right, Up, Left, Down, Right, Up, Left, Down, Right, Up, Left, Down, Right, Up, Left, Down]))) = 19 \<and>
   enemies (enemiesSpawn Down (run \<lparr>width = 800, height = 600\<rparr> (map SpawnTick
     [Up, Left, Down, Right, Up, Left, Down, Right, Up, Left, Down, Right, Up, Left, Down, Right, Up, Left, Down])))
   = map Enemy_new [Down, Down, Left, Up, Right, Down, Left, Up, Right, Down, Left, Up, Right, Down, Left, Up, Right, Down, Left] \<and>
   length (enemies (enemiesSpawn Down (run \<lparr>width = 800, height = 600\<rparr> (map SpawnTick
     [Up, Left, Down, Right, Up, Left, Down, Right, Up, Left, Down, Right, Up, Left, Down, Right, Up, Left, Down])))) = 19"
  using spawn_leaves_at_most_19 [of "\<lparr>width = 800, height = 600\<rparr>" "[]" Down
    "run \<lparr>width = 800, height = 600\<rparr> (map SpawnTick
     [Up, Left, Down, Right, Up, Left, Down, Right, Up, Left, Down, Right, Up, Left, Down, Right, Up, Left, Down])"]
  unfolding run_spawns_enemies by simp

end
